theory Spec2Isabelle
  imports
    Complex_Main
    "HOL-Library.Multiset"
    "HOL-Library.Sublist"
    "HOL-Library.Char_ord"
    "HOL-Library.List_Lexorder"
    "HOL-Library.Product_Lexorder"
begin

section \<open>Data model\<close>

text \<open>
  Positions are rows of three numbers and a lattice is three such rows. The source
  stores them as numpy floats; the embedding uses exact reals, so every statement below
  is about the exact arithmetic of the algorithms.
\<close>

type_synonym vec3 = "real \<times> real \<times> real"
type_synonym mat3 = "vec3 \<times> vec3 \<times> vec3"
type_synonym ivec3 = "int \<times> int \<times> int"

text \<open>One entry of the record arrays \<open>direct\<close> and \<open>cartesian\<close>.\<close>

record atom =
  position :: vec3
  element :: string

text \<open>
  The fields of class \<open>Structure\<close> that the operations below read or write.
  \<open>elements\<close> and \<open>view_agls\<close> are touched by none of them and are left out.
\<close>

record Structure =
  comment :: string
  coordinates :: mat3
  direct :: "atom list"
  cartesian :: "atom list"

datatype error = ValueError string | LinAlgError | IndexError

text \<open>
  A method that mutates its \<open>Structure\<close> yields what it returned or raised together
  with the state the object is in at that moment.
\<close>

type_synonym 'a outcome = "(error + 'a) \<times> Structure"

type_synonym min_dist_dict = "string \<times> string \<rightharpoonup> real"

section \<open>Vector and matrix arithmetic (numpy)\<close>

fun vec_add :: "vec3 \<Rightarrow> vec3 \<Rightarrow> vec3" where
  "vec_add (a, b, c) (x, y, z) = (a + x, b + y, c + z)"

fun vec_sub :: "vec3 \<Rightarrow> vec3 \<Rightarrow> vec3" where
  "vec_sub (a, b, c) (x, y, z) = (a - x, b - y, c - z)"

fun vec_scale :: "real \<Rightarrow> vec3 \<Rightarrow> vec3" where
  "vec_scale k (x, y, z) = (k * x, k * y, k * z)"

text \<open>\<open>np.linalg.norm\<close> of a vector.\<close>

fun norm3 :: "vec3 \<Rightarrow> real" where
  "norm3 (x, y, z) = sqrt (x * x + y * y + z * z)"

text \<open>\<open>np.dot(v, m)\<close>: a row vector times a matrix given by its rows.\<close>

fun vecmat :: "vec3 \<Rightarrow> mat3 \<Rightarrow> vec3" where
  "vecmat (x, y, z) ((a11, a12, a13), (a21, a22, a23), (a31, a32, a33)) =
     (x * a11 + y * a21 + z * a31,
      x * a12 + y * a22 + z * a32,
      x * a13 + y * a23 + z * a33)"

fun det3 :: "mat3 \<Rightarrow> real" where
  "det3 ((a11, a12, a13), (a21, a22, a23), (a31, a32, a33)) =
     a11 * (a22 * a33 - a23 * a32)
     - a12 * (a21 * a33 - a23 * a31)
     + a13 * (a21 * a32 - a22 * a31)"

text \<open>
  \<open>np.linalg.inv\<close>: raises \<open>LinAlgError\<close> on a singular matrix, otherwise the inverse
  (here: the adjugate divided by the determinant).
\<close>

fun inv3 :: "mat3 \<Rightarrow> error + mat3" where
  "inv3 ((a11, a12, a13), (a21, a22, a23), (a31, a32, a33)) =
     (let d = det3 ((a11, a12, a13), (a21, a22, a23), (a31, a32, a33)) in
      if d = 0 then Inl LinAlgError
      else Inr
        (((a22 * a33 - a23 * a32) / d, (a13 * a32 - a12 * a33) / d, (a12 * a23 - a13 * a22) / d),
         ((a23 * a31 - a21 * a33) / d, (a11 * a33 - a13 * a31) / d, (a13 * a21 - a11 * a23) / d),
         ((a21 * a32 - a22 * a31) / d, (a12 * a31 - a11 * a32) / d, (a11 * a22 - a12 * a21) / d)))"

text \<open>Assigning \<open>arr['position'] = np.dot(arr['position'], m)\<close> on a record array.\<close>

definition dot_positions :: "atom list \<Rightarrow> mat3 \<Rightarrow> atom list" where
  "dot_positions atoms m = map (\<lambda>a. a\<lparr>position := vecmat (position a) m\<rparr>) atoms"

text \<open>
  \<open>arr.sort(order='element')\<close>. numpy fixes the order of the element symbols; the order
  it leaves between two atoms of the same element is not relied on by any statement
  below (here: the order they had).
\<close>

definition sort_by_element :: "atom list \<Rightarrow> atom list" where
  "sort_by_element atoms = sort_key element atoms"

text \<open>Indexing a record array with a boolean mask of the same length.\<close>

definition mask_select :: "bool list \<Rightarrow> 'a list \<Rightarrow> error + 'a list" where
  "mask_select idx xs =
     (if length idx = length xs then Inr (map snd (filter fst (zip idx xs)))
      else Inl IndexError)"

section \<open>collision\_removal.py: the safety predicate and the two region passes\<close>

definition apart_by_safe_distance :: "min_dist_dict \<Rightarrow> atom \<Rightarrow> atom \<Rightarrow> bool" where
  "apart_by_safe_distance min_dist_dict atom_1 atom_2 =
     (let dist = norm3 (vec_sub (position atom_1) (position atom_2)) in
      case min_dist_dict (element atom_1, element atom_2) of
        Some min_dist \<Rightarrow> dist \<ge> min_dist
      | None \<Rightarrow>
          (case min_dist_dict (element atom_2, element atom_1) of
             Some min_dist \<Rightarrow> dist \<ge> min_dist
           | None \<Rightarrow> True))"

text \<open>
  The \<open>while\<close> loop of \<open>remove_collision_within_region\<close>, with its counter \<open>i\<close> and
  the array \<open>reg\<close> it rebuilds in every round.
\<close>

function within_loop :: "min_dist_dict \<Rightarrow> nat \<Rightarrow> atom list \<Rightarrow> atom list" where
  "within_loop min_dist_dict i reg =
     (if int i < int (length reg) - 1 then
        within_loop min_dist_dict (i + 1)
          (take (i + 1) reg @
           filter (\<lambda>x. apart_by_safe_distance min_dist_dict x (reg ! i)) (drop (i + 1) reg))
      else reg)"
  by pat_completeness auto
termination
  by (relation "measure (\<lambda>(d, i, reg). length reg - i)")
     (auto simp: less_Suc_eq_le intro!: diff_less_mono2 le_less_trans [OF length_filter_le])

declare within_loop.simps [simp del]

definition remove_collision_within_region :: "atom list \<Rightarrow> min_dist_dict \<Rightarrow> atom list" where
  "remove_collision_within_region reg min_dist_dict = within_loop min_dist_dict 0 reg"

text \<open>The \<open>for\<close> loop of \<open>remove_collision_between_regions\<close> over \<open>reg_1\<close>.\<close>

fun between_loop :: "min_dist_dict \<Rightarrow> atom list \<Rightarrow> atom list \<Rightarrow> atom list" where
  "between_loop min_dist_dict [] reg_2 = reg_2"
| "between_loop min_dist_dict (atm # rest) reg_2 =
     (if length reg_2 \<le> 0 then reg_2
      else between_loop min_dist_dict rest
             (filter (\<lambda>x. apart_by_safe_distance min_dist_dict x atm) reg_2))"

definition remove_collision_between_regions ::
    "atom list \<Rightarrow> atom list \<Rightarrow> min_dist_dict \<Rightarrow> atom list" where
  "remove_collision_between_regions reg_1 reg_2 min_dist_dict =
     between_loop min_dist_dict reg_1 reg_2"

section \<open>structure.py: reconciliation, supercell growth and combination\<close>

text \<open>
  \<open>Structure.reconcile\<close>. In the \<open>'C'\<close> branch the sort and the copy into \<open>direct\<close>
  have already happened when \<open>np.linalg.inv\<close> raises.
\<close>

definition reconcile :: "Structure \<Rightarrow> string \<Rightarrow> unit outcome" where
  "reconcile self according_to =
     (if according_to = ''C'' then
        (let s1 = self\<lparr>cartesian := sort_by_element (cartesian self)\<rparr>;
             s2 = s1\<lparr>direct := cartesian s1\<rparr>
         in case inv3 (coordinates s2) of
              Inl e \<Rightarrow> (Inl e, s2)
            | Inr coord_inv \<Rightarrow>
                (Inr (), s2\<lparr>direct := dot_positions (cartesian s2) coord_inv\<rparr>))
      else if according_to = ''D'' then
        (let s1 = self\<lparr>direct := sort_by_element (direct self)\<rparr>;
             s2 = s1\<lparr>cartesian := direct s1\<rparr>
         in (Inr (), s2\<lparr>cartesian := dot_positions (cartesian s2) (coordinates s2)\<rparr>))
      else
        (Inl (ValueError (''Argument according_to should either be'' @
                [CHR 0x22] @ ''C'' @ [CHR 0x22] @ '' or '' @ [CHR 0x22] @ ''D'' @ [CHR 0x22] @ ''.'')),
         self))"

text \<open>
  Modelled from the spec: \<open>geom.valid_direct_vec\<close> lives in the module \<open>geometry\<close>, which
  is not among the sources. The spec's \<open>inside_unit_cell(point)\<close> is
  "true iff every fractional coordinate lies in [0, 1)".
\<close>

fun valid_direct_vec :: "vec3 \<Rightarrow> bool" where
  "valid_direct_vec (x, y, z) = (0 \<le> x \<and> x < 1 \<and> 0 \<le> y \<and> y < 1 \<and> 0 \<le> z \<and> z < 1)"

definition supercell_pos_init :: "ivec3 list" where
  "supercell_pos_init =
     [(0, 0, 0), (1, 0, 0), (0, 1, 0), (0, 0, 1), (-1, 0, 0), (0, -1, 0), (0, 0, -1)]"

definition search_dirs :: "ivec3 list" where
  "search_dirs =
     [(1, 0, 0), (0, 1, 0), (0, 0, 1), (-1, 0, 0), (0, -1, 0),
      (0, 0, -1), (1, 1, 0), (1, -1, 0), (-1, 1, 0), (0, 1, 1),
      (0, 1, -1), (0, -1, 1), (1, 0, 1), (1, 0, -1), (-1, 0, 1),
      (1, 1, 1), (-1, -1, -1), (-1, -1, 1), (-1, 1, -1), (1, -1, -1)]"

fun ivec_add :: "ivec3 \<Rightarrow> ivec3 \<Rightarrow> ivec3" where
  "ivec_add (a, b, c) (x, y, z) = (a + x, b + y, c + z)"

fun real_vec :: "ivec3 \<Rightarrow> vec3" where
  "real_vec (a, b, c) = (real_of_int a, real_of_int b, real_of_int c)"

text \<open>\<open>lattice_vecs + np.identity(3) * 1e-5\<close>\<close>

fun strengthen_diagonal :: "mat3 \<Rightarrow> mat3" where
  "strengthen_diagonal ((a11, a12, a13), (a21, a22, a23), (a31, a32, a33)) =
     ((a11 + 1 / 100000, a12, a13), (a21, a22 + 1 / 100000, a23), (a31, a32, a33 + 1 / 100000))"

text \<open>
  What one round of the search computes for the translation \<open>current_pos\<close>: the atoms of
  \<open>self.cartesian\<close> shifted by \<open>current_pos \<cdot> self.coordinates\<close>, expressed in the new
  lattice, and filtered by \<open>valid_direct_vec\<close>.
\<close>

definition shifted_atoms :: "mat3 \<Rightarrow> atom list \<Rightarrow> mat3 \<Rightarrow> ivec3 \<Rightarrow> atom list" where
  "shifted_atoms coords cart new_coord_inv current_pos =
     (let shift_vector = vecmat (real_vec current_pos) coords;
          shifted = map (\<lambda>a. a\<lparr>position := vec_add (position a) shift_vector\<rparr>) cart;
          shifted = dot_positions shifted new_coord_inv
      in filter (\<lambda>a. valid_direct_vec (position a)) shifted)"

text \<open>
  The \<open>while\<close> loop of \<open>grow_to_supercell\<close> on its three variables: the queue
  \<open>supercell_pos\<close>, the set \<open>searched_pos\<close> and the array \<open>enlarged_struct\<close>. The function
  \<open>shell\<close> is the body's computation of \<open>shifted\<close> from \<open>current_pos\<close>. The loop returns
  the three variables as they are when its condition fails.
\<close>

function grow_loop ::
    "(ivec3 \<Rightarrow> atom list) \<Rightarrow> int \<Rightarrow> ivec3 list \<times> ivec3 set \<times> atom list
     \<Rightarrow> ivec3 list \<times> ivec3 set \<times> atom list" where
  "grow_loop shell max_atoms (supercell_pos, searched_pos, enlarged_struct) =
     (if int (length enlarged_struct) \<le> max_atoms \<and> length supercell_pos > 0 then
        (let current_pos = hd supercell_pos;
             supercell_pos = tl supercell_pos
         in if current_pos \<in> searched_pos then
              grow_loop shell max_atoms (supercell_pos, searched_pos, enlarged_struct)
            else
              (let searched_pos = insert current_pos searched_pos;
                   shifted = shell current_pos
               in if length shifted > 0 then
                    grow_loop shell max_atoms
                      (supercell_pos @
                         filter (\<lambda>p. p \<notin> searched_pos)
                           (map (\<lambda>x. ivec_add x current_pos) search_dirs),
                       searched_pos,
                       enlarged_struct @ shifted)
                  else grow_loop shell max_atoms (supercell_pos, searched_pos, enlarged_struct)))
      else (supercell_pos, searched_pos, enlarged_struct))"
  by pat_completeness auto
termination
  by (relation "measures
        [\<lambda>(shell, max_atoms, q, sp, e). nat (max_atoms + 1 - int (length e)),
         \<lambda>(shell, max_atoms, q, sp, e). length q]")
     auto

declare grow_loop.simps [simp del]

text \<open>
  \<open>np.unique\<close> on the record array: its distinct entries, sorted. (The order is replaced
  by the sort on \<open>element\<close> that follows.)
\<close>

definition np_unique :: "atom list \<Rightarrow> atom list" where
  "np_unique atoms = sort_key (\<lambda>a. (position a, element a)) (remdups atoms)"

definition grow_to_supercell :: "Structure \<Rightarrow> mat3 \<Rightarrow> int \<Rightarrow> unit outcome" where
  "grow_to_supercell self lattice_vecs max_atoms =
     (case inv3 (strengthen_diagonal lattice_vecs) of
        Inl e \<Rightarrow> (Inl e, self)
      | Inr new_coord_inv \<Rightarrow>
          (case grow_loop (shifted_atoms (coordinates self) (cartesian self) new_coord_inv)
                  max_atoms (supercell_pos_init, {}, []) of
             (supercell_pos, searched_pos, enlarged_struct) \<Rightarrow>
               (let s1 = self\<lparr>direct := np_unique enlarged_struct\<rparr>
                in if length (direct s1) \<le> 0 then
                     (Inl (ValueError ''Grown super-cell is empty''), s1)
                   else
                     (let s2 = s1\<lparr>direct := sort_by_element (direct s1)\<rparr>;
                          s3 = s2\<lparr>coordinates := lattice_vecs\<rparr>
                      in reconcile s3 ''D''))))"

text \<open>
  \<open>Structure.combine_structures\<close>, called on two distinct objects. The result is the
  outcome together with the final states of \<open>struct_1\<close> (which is also the value
  returned) and \<open>struct_2\<close>.
\<close>

fun halve_z :: "atom \<Rightarrow> atom" where
  "halve_z a = (case position a of (x, y, z) \<Rightarrow> a\<lparr>position := (x, y, z / 2)\<rparr>)"

fun add_z :: "real \<Rightarrow> atom \<Rightarrow> atom" where
  "add_z k a = (case position a of (x, y, z) \<Rightarrow> a\<lparr>position := (x, y, z + k)\<rparr>)"

fun double_row_2 :: "mat3 \<Rightarrow> mat3" where
  "double_row_2 (r0, r1, r2) = (r0, r1, vec_scale 2 r2)"

definition combine_structures ::
    "Structure \<Rightarrow> Structure \<Rightarrow> (error + unit) \<times> Structure \<times> Structure" where
  "combine_structures struct_1 struct_2 =
     (let s1 = struct_1\<lparr>direct := map halve_z (direct struct_1)\<rparr>;
          s2 = struct_2\<lparr>direct := map halve_z (direct struct_2)\<rparr>;
          s2 = s2\<lparr>direct := map (add_z (1 / 2)) (direct s2)\<rparr>;
          s1 = s1\<lparr>direct := direct s1 @ direct s2\<rparr>;
          s1 = s1\<lparr>coordinates := double_row_2 (coordinates s1)\<rparr>;
          s1 = s1\<lparr>comment := comment s1 @ ''_'' @ comment s2\<rparr>
      in case reconcile s1 ''D'' of (r, s1') \<Rightarrow> (r, s1', s2))"

section \<open>collision\_removal.py: the corner pass\<close>

text \<open>Comparing a position with \<open>dv + boundary_radius\<close> and \<open>dv - boundary_radius\<close>,
  componentwise, followed by \<open>np.all\<close>.\<close>

fun all_less_plus :: "vec3 \<Rightarrow> vec3 \<Rightarrow> real \<Rightarrow> bool" where
  "all_less_plus (x, y, z) (a, b, c) r = (x < a + r \<and> y < b + r \<and> z < c + r)"

fun all_greater_minus :: "vec3 \<Rightarrow> vec3 \<Rightarrow> real \<Rightarrow> bool" where
  "all_greater_minus (x, y, z) (a, b, c) r = (x > a - r \<and> y > b - r \<and> z > c - r)"

text \<open>
  The lists \<open>corner_atoms\<close> and \<open>corner_indic\<close> grow together and are kept here as one
  list of pairs. The innermost loop shifts the stored atom, tests it against \<open>atm\<close>
  and shifts it back; it stops looking once \<open>qualify\<close> is false.
\<close>

fun qualify_loop ::
    "min_dist_dict \<Rightarrow> mat3 \<Rightarrow> vec3 \<Rightarrow> atom \<Rightarrow> bool \<Rightarrow> (atom \<times> vec3) list
     \<Rightarrow> bool \<times> (atom \<times> vec3) list" where
  "qualify_loop min_dist_dict coords dv atm qualify [] = (qualify, [])"
| "qualify_loop min_dist_dict coords dv atm qualify ((c, indic) # rest) =
     (if \<not> qualify then (qualify, (c, indic) # rest)
      else
        (let shift = vecmat (vec_sub dv indic) coords;
             c1 = c\<lparr>position := vec_add (position c) shift\<rparr>;
             qualify' = (if \<not> apart_by_safe_distance min_dist_dict c1 atm then False
                         else qualify);
             c2 = c1\<lparr>position := vec_sub (position c1) shift\<rparr>
         in case qualify_loop min_dist_dict coords dv atm qualify' rest of
              (q, rest') \<Rightarrow> (q, (c2, indic) # rest')))"

fun candidates_loop ::
    "min_dist_dict \<Rightarrow> mat3 \<Rightarrow> vec3 \<Rightarrow> atom list \<Rightarrow> (atom \<times> vec3) list
     \<Rightarrow> (atom \<times> vec3) list" where
  "candidates_loop min_dist_dict coords dv [] corner = corner"
| "candidates_loop min_dist_dict coords dv (atm # rest) corner =
     (case qualify_loop min_dist_dict coords dv atm True corner of
        (qualify, corner') \<Rightarrow>
          candidates_loop min_dist_dict coords dv rest
            (if qualify then corner' @ [(atm, dv)] else corner'))"

text \<open>The loop \<open>for dv in dir_vecs\<close>.\<close>

fun corners_loop ::
    "min_dist_dict \<Rightarrow> real \<Rightarrow> vec3 list \<Rightarrow> Structure \<Rightarrow> (atom \<times> vec3) list
     \<Rightarrow> (error + (atom \<times> vec3) list) \<times> Structure" where
  "corners_loop min_dist_dict boundary_radius [] struct corner = (Inr corner, struct)"
| "corners_loop min_dist_dict boundary_radius (dv # dvs) struct corner =
     (let idx = map (\<lambda>a. all_less_plus (position a) dv boundary_radius \<and>
                          all_greater_minus (position a) dv boundary_radius)
                    (direct struct)
      in case mask_select idx (cartesian struct) of
           Inl e \<Rightarrow> (Inl e, struct)
         | Inr candidate_atoms \<Rightarrow>
             (case mask_select (map Not idx) (cartesian struct) of
                Inl e \<Rightarrow> (Inl e, struct)
              | Inr remaining \<Rightarrow>
                  (let s1 = struct\<lparr>cartesian := remaining\<rparr>;
                       corner' = candidates_loop min_dist_dict (coordinates s1) dv
                                   candidate_atoms corner
                   in case reconcile s1 ''C'' of
                        (Inl e, s2) \<Rightarrow> (Inl e, s2)
                      | (Inr u, s2) \<Rightarrow>
                          corners_loop min_dist_dict boundary_radius dvs s2 corner')))"

text \<open>
  \<open>remove_collision_at_corners\<close>. Its list \<open>dir_vecs\<close> comes from
  \<open>geom.cartesian_product\<close>, which is not among the sources, and is a parameter here.
  On return the result is \<open>orig_atom_count - final_atom_count\<close>.
\<close>

definition remove_collision_at_corners ::
    "vec3 list \<Rightarrow> Structure \<Rightarrow> real \<Rightarrow> min_dist_dict \<Rightarrow> bool \<Rightarrow> int outcome" where
  "remove_collision_at_corners dir_vecs struct boundary_radius min_dist_dict random_delete =
     (let orig_atom_count = int (length (cartesian struct))
      in case corners_loop min_dist_dict boundary_radius dir_vecs struct [] of
           (Inl e, s1) \<Rightarrow> (Inl e, s1)
         | (Inr corner, s1) \<Rightarrow>
             (let s2 = s1\<lparr>cartesian := cartesian s1 @ map fst corner\<rparr>
              in case reconcile s2 ''C'' of
                   (Inl e, s3) \<Rightarrow> (Inl e, s3)
                 | (Inr u, s3) \<Rightarrow>
                     (let final_atom_count = int (length (cartesian s3))
                      in (Inr (orig_atom_count - final_atom_count), s3))))"

section \<open>Reference definitions for the collision passes\<close>

text \<open>
  The greedy left-to-right filter in the words of the specification: the atoms are
  visited in order, and an atom is kept if and only if it is at a safe distance from
  every atom kept so far.
\<close>

definition keep_if_safe :: "min_dist_dict \<Rightarrow> atom list \<Rightarrow> atom \<Rightarrow> atom list" where
  "keep_if_safe d survivors a =
     (if list_all (\<lambda>s. apart_by_safe_distance d a s) survivors then survivors @ [a] else survivors)"

definition greedy_filter :: "min_dist_dict \<Rightarrow> atom list \<Rightarrow> atom list" where
  "greedy_filter d reg = foldl (keep_if_safe d) [] reg"

text \<open>Every atom of the list is at a safe distance from every atom before it.\<close>

fun safe_chain :: "min_dist_dict \<Rightarrow> atom list \<Rightarrow> bool" where
  "safe_chain d [] = True"
| "safe_chain d (x # xs) = (list_all (\<lambda>y. apart_by_safe_distance d y x) xs \<and> safe_chain d xs)"

text \<open>The same filter, by recursion on the list.\<close>

fun greedy :: "min_dist_dict \<Rightarrow> atom list \<Rightarrow> atom list" where
  "greedy d [] = []"
| "greedy d (x # xs) = x # greedy d (filter (\<lambda>y. apart_by_safe_distance d y x) xs)"

text \<open>
  The table holds no two different thresholds for a pair of elements and the same pair
  reversed.
\<close>

definition same_threshold :: "min_dist_dict \<Rightarrow> string \<Rightarrow> string \<Rightarrow> bool" where
  "same_threshold d ele_1 ele_2 =
     (case (d (ele_1, ele_2), d (ele_2, ele_1)) of
        (Some m, Some m') \<Rightarrow> m = m'
      | _ \<Rightarrow> True)"

section \<open>Inputs and reference values for the growth scenarios\<close>

text \<open>The translations with all three components in \<open>{0, \<dots>, n - 1}\<close>.\<close>

definition cube :: "int \<Rightarrow> ivec3 \<Rightarrow> bool" where
  "cube n k = (case k of (a, b, c) \<Rightarrow> 0 \<le> a \<and> a < n \<and> 0 \<le> b \<and> b < n \<and> 0 \<le> c \<and> c < n)"

text \<open>
  A reconciled Structure in the cubic lattice of side 1 (there \<open>direct\<close> and
  \<open>cartesian\<close> coincide), and the cubic lattice of side \<open>a\<close>.
\<close>

definition unit_cell :: "string \<Rightarrow> atom list \<Rightarrow> Structure" where
  "unit_cell c atoms =
     \<lparr>comment = c, coordinates = ((1, 0, 0), (0, 1, 0), (0, 0, 1)),
      direct = atoms, cartesian = atoms\<rparr>"

definition cubic :: "real \<Rightarrow> mat3" where
  "cubic a = ((a, 0, 0), (0, a, 0), (0, 0, a))"

text \<open>
  The copy of an atom at \<open>p\<close> translated by \<open>k\<close>, in the fractional coordinates that
  the strengthened inverse of the cube of side 2 gives it.
\<close>

definition image_atom :: "vec3 \<Rightarrow> string \<Rightarrow> ivec3 \<Rightarrow> atom" where
  "image_atom p e k =
     \<lparr>position = vec_scale (100000 / 200001) (vec_add p (real_vec k)), element = e\<rparr>"

section \<open>The safety predicate\<close>

lemma norm3_sub_commute: "norm3 (vec_sub p q) = norm3 (vec_sub q p)"
proof -
  obtain a b c where p: "p = (a, b, c)" by (cases p) auto
  obtain x y z where q: "q = (x, y, z)" by (cases q) auto
  have "(a - x) * (a - x) = (x - a) * (x - a)" "(b - y) * (b - y) = (y - b) * (y - b)"
       "(c - z) * (c - z) = (z - c) * (z - c)"
    by (simp_all add: algebra_simps)
  then show ?thesis by (simp add: p q)
qed

text \<open>
  Claim C4, as stated, asks \<open>apart_by_safe_distance\<close> to give the same answer for
  \<open>(a1, a2)\<close> and \<open>(a2, a1)\<close> under every table. The dictionary is keyed by ordered
  pairs and the lookup tries \<open>(A, B)\<close> first: with the entries \<open>(A, B) \<mapsto> 0\<close> and
  \<open>(B, A) \<mapsto> 2\<close>, two atoms at distance 1 are safe in one order and unsafe in the other.
\<close>

theorem apart_by_safe_distance_not_symmetric:
  "apart_by_safe_distance (map_of [((''A'', ''B''), 0), ((''B'', ''A''), 2)])
       \<lparr>position = (0, 0, 0), element = ''A''\<rparr> \<lparr>position = (1, 0, 0), element = ''B''\<rparr>
   \<noteq> apart_by_safe_distance (map_of [((''A'', ''B''), 0), ((''B'', ''A''), 2)])
       \<lparr>position = (1, 0, 0), element = ''B''\<rparr> \<lparr>position = (0, 0, 0), element = ''A''\<rparr>"
  by (simp add: apart_by_safe_distance_def)

text \<open>
  Claim C4, amended: whenever the table does not hold two different thresholds under the
  keys \<open>(A, B)\<close> and \<open>(B, A)\<close> of the two atoms' elements, \<open>apart_by_safe_distance\<close>
  gives the same answer for \<open>(a1, a2)\<close> and \<open>(a2, a1)\<close>.
\<close>

theorem apart_by_safe_distance_symmetric:
  "same_threshold d (element a1) (element a2) \<Longrightarrow>
   apart_by_safe_distance d a1 a2 = apart_by_safe_distance d a2 a1"
  unfolding apart_by_safe_distance_def same_threshold_def Let_def
    norm3_sub_commute [of "position a1" "position a2"]
  by (simp split: option.splits)

theorem apart_by_safe_distance_symmetric_witness:
  "same_threshold (map_of [((''A'', ''B''), 2)]) ''A'' ''B'' \<and>
   apart_by_safe_distance (map_of [((''A'', ''B''), 2)])
       \<lparr>position = (0, 0, 0), element = ''A''\<rparr> \<lparr>position = (1, 0, 0), element = ''B''\<rparr>
   = apart_by_safe_distance (map_of [((''A'', ''B''), 2)])
       \<lparr>position = (1, 0, 0), element = ''B''\<rparr> \<lparr>position = (0, 0, 0), element = ''A''\<rparr>"
proof -
  have h: "same_threshold (map_of [((''A'', ''B''), 2)]) ''A'' ''B''"
    by (simp add: same_threshold_def)
  show ?thesis
    using h apart_by_safe_distance_symmetric
      [of "map_of [((''A'', ''B''), 2)]" "\<lparr>position = (0, 0, 0), element = ''A''\<rparr>"
          "\<lparr>position = (1, 0, 0), element = ''B''\<rparr>"]
    by simp
qed

section \<open>Removal within a region\<close>

lemma within_loop_greedy:
  "i \<le> length reg \<Longrightarrow> within_loop d i reg = take i reg @ greedy d (drop i reg)"
proof (induction d i reg rule: within_loop.induct)
  case (1 d i reg)
  show ?case
  proof (cases "int i < int (length reg) - 1")
    case True
    then have lt: "i < length reg" by simp
    let ?reg' = "take (i + 1) reg @ filter (\<lambda>x. apart_by_safe_distance d x (reg ! i)) (drop (i + 1) reg)"
    have len: "i + 1 \<le> length ?reg'" using lt by simp
    have "within_loop d i reg = within_loop d (i + 1) ?reg'"
      using True by (subst within_loop.simps) simp
    also have "\<dots> = take (i + 1) ?reg' @ greedy d (drop (i + 1) ?reg')"
      using "1.IH" [OF True len] .
    also have "\<dots> = take (i + 1) reg @ greedy d (filter (\<lambda>x. apart_by_safe_distance d x (reg ! i)) (drop (i + 1) reg))"
      using lt by simp
    also have "\<dots> = take i reg @ greedy d (drop i reg)"
      using lt by (simp add: take_Suc_conv_app_nth Cons_nth_drop_Suc [symmetric])
    finally show ?thesis .
  next
    case False
    then have "length reg - i \<le> 1" by simp
    then have "greedy d (drop i reg) = drop i reg"
      by (cases "drop i reg") (auto simp: Suc_le_eq dest!: arg_cong [where f = length])
    then show ?thesis using False by (subst within_loop.simps) simp
  qed
qed

lemma foldl_keep_greedy:
  "foldl (keep_if_safe d) acc xs =
     acc @ greedy d (filter (\<lambda>y. list_all (\<lambda>s. apart_by_safe_distance d y s) acc) xs)"
proof (induction xs arbitrary: acc)
  case Nil
  show ?case by simp
next
  case (Cons y ys)
  show ?case
  proof (cases "list_all (\<lambda>s. apart_by_safe_distance d y s) acc")
    case True
    then have "foldl (keep_if_safe d) acc (y # ys) = foldl (keep_if_safe d) (acc @ [y]) ys"
      by (simp add: keep_if_safe_def)
    also have "\<dots> = (acc @ [y]) @ greedy d
        (filter (\<lambda>x. list_all (\<lambda>s. apart_by_safe_distance d x s) (acc @ [y])) ys)"
      by (rule Cons.IH)
    also have "filter (\<lambda>x. list_all (\<lambda>s. apart_by_safe_distance d x s) (acc @ [y])) ys =
        filter (\<lambda>x. apart_by_safe_distance d x y)
          (filter (\<lambda>x. list_all (\<lambda>s. apart_by_safe_distance d x s) acc) ys)"
      by (auto intro: filter_cong)
    finally show ?thesis using True by simp
  next
    case False
    then have "foldl (keep_if_safe d) acc (y # ys) = foldl (keep_if_safe d) acc ys"
      by (simp add: keep_if_safe_def)
    then show ?thesis using False by (simp add: Cons.IH)
  qed
qed

lemma set_greedy: "set (greedy d xs) \<subseteq> set xs"
  by (induction d xs rule: greedy.induct) auto

lemma safe_chain_greedy: "safe_chain d (greedy d xs)"
proof (induction d xs rule: greedy.induct)
  case (1 d)
  show ?case by simp
next
  case (2 d x xs)
  then show ?case using set_greedy [of d "filter (\<lambda>y. apart_by_safe_distance d y x) xs"]
    by (auto simp: list_all_iff)
qed

lemma greedy_fixed: "safe_chain d xs \<Longrightarrow> greedy d xs = xs"
  by (induction xs) (auto simp: list_all_iff filter_id_conv)

lemma within_region_is_greedy: "remove_collision_within_region reg d = greedy d reg"
  by (simp add: remove_collision_within_region_def within_loop_greedy)

lemma greedy_filter_is_greedy: "greedy_filter d reg = greedy d reg"
  by (simp add: greedy_filter_def foldl_keep_greedy)

text \<open>
  Claim C6: \<open>remove_collision_within_region\<close> is the greedy left-to-right filter: an atom
  survives if and only if it is at a safe distance from every surviving atom before it.
  So in the result every atom is safe with respect to every earlier one (the earlier
  atom of an unsafe pair wins, and a removed atom removes nothing), and the first atom
  of a non-empty region survives.
\<close>

theorem remove_collision_within_region_greedy:
  "remove_collision_within_region reg d = greedy_filter d reg \<and>
   safe_chain d (remove_collision_within_region reg d) \<and>
   take 1 (remove_collision_within_region reg d) = take 1 reg"
proof -
  have "take 1 (greedy d reg) = take 1 reg" by (cases reg) simp_all
  then show ?thesis
    by (simp add: within_region_is_greedy greedy_filter_is_greedy safe_chain_greedy)
qed

text \<open>
  Claim C7: \<open>remove_collision_within_region\<close> is idempotent: applied to its own output
  it removes nothing.
\<close>

theorem remove_collision_within_region_idempotent:
  "remove_collision_within_region (remove_collision_within_region reg d) d =
   remove_collision_within_region reg d"
  by (simp add: within_region_is_greedy greedy_fixed safe_chain_greedy)

section \<open>Removal between two regions\<close>

lemma between_loop_filter:
  "between_loop d reg_1 reg_2 =
     filter (\<lambda>x. list_all (\<lambda>a. apart_by_safe_distance d x a) reg_1) reg_2"
proof (induction reg_1 arbitrary: reg_2)
  case Nil
  show ?case by simp
next
  case (Cons atm rest)
  show ?case
    by (cases "reg_2 = []") (auto simp: Cons.IH intro: filter_cong)
qed

text \<open>
  Claim C8: \<open>remove_collision_between_regions\<close> returns exactly those atoms of the second
  sequence that are at a safe distance from every atom of the first, in their order; the
  result is a subsequence of the second sequence and no longer than it. The first
  sequence is only read: the function is a function of the two sequences and builds
  its result from the second one alone.
\<close>

theorem remove_collision_between_regions_filter:
  "remove_collision_between_regions reg_1 reg_2 d =
     filter (\<lambda>x. list_all (\<lambda>a. apart_by_safe_distance d x a) reg_1) reg_2 \<and>
   subseq (remove_collision_between_regions reg_1 reg_2 d) reg_2 \<and>
   length (remove_collision_between_regions reg_1 reg_2 d) \<le> length reg_2"
  by (simp add: remove_collision_between_regions_def between_loop_filter)

section \<open>Reconciliation\<close>

lemma scaled_rows:
  fixes d :: real
  shows "(x * (A / d) + y * (B / d) + z * (C / d)) * a
       + (x * (D / d) + y * (E / d) + z * (F / d)) * b
       + (x * (G / d) + y * (H / d) + z * (I / d)) * c
       = ((x * A + y * B + z * C) * a + (x * D + y * E + z * F) * b
          + (x * G + y * H + z * I) * c) / d"
  by (simp add: add_divide_distrib distrib_right)

lemma vecmat_inv3:
  assumes "inv3 m = Inr mi"
  shows "vecmat (vecmat v mi) m = v"
proof -
  obtain a11 a12 a13 a21 a22 a23 a31 a32 a33 where
    m: "m = ((a11, a12, a13), (a21, a22, a23), (a31, a32, a33))"
    by (metis prod_cases3)
  obtain x y z where v: "v = (x, y, z)" by (metis prod_cases3)
  define d where "d = a11 * (a22 * a33 - a23 * a32) - a12 * (a21 * a33 - a23 * a31)
     + a13 * (a21 * a32 - a22 * a31)"
  have d: "d \<noteq> 0" using assms by (auto simp: m d_def Let_def split: if_splits)
  have mi: "mi =
        (((a22 * a33 - a23 * a32) / d, (a13 * a32 - a12 * a33) / d, (a12 * a23 - a13 * a22) / d),
         ((a23 * a31 - a21 * a33) / d, (a11 * a33 - a13 * a31) / d, (a13 * a21 - a11 * a23) / d),
         ((a21 * a32 - a22 * a31) / d, (a12 * a31 - a11 * a32) / d, (a11 * a22 - a12 * a21) / d))"
    using assms by (auto simp: m d_def Let_def split: if_splits)
  have c1: "(x * (a22 * a33 - a23 * a32) + y * (a23 * a31 - a21 * a33)
              + z * (a21 * a32 - a22 * a31)) * a11
          + (x * (a13 * a32 - a12 * a33) + y * (a11 * a33 - a13 * a31)
              + z * (a12 * a31 - a11 * a32)) * a21
          + (x * (a12 * a23 - a13 * a22) + y * (a13 * a21 - a11 * a23)
              + z * (a11 * a22 - a12 * a21)) * a31 = x * d"
    unfolding d_def by (simp add: algebra_simps)
  have c2: "(x * (a22 * a33 - a23 * a32) + y * (a23 * a31 - a21 * a33)
              + z * (a21 * a32 - a22 * a31)) * a12
          + (x * (a13 * a32 - a12 * a33) + y * (a11 * a33 - a13 * a31)
              + z * (a12 * a31 - a11 * a32)) * a22
          + (x * (a12 * a23 - a13 * a22) + y * (a13 * a21 - a11 * a23)
              + z * (a11 * a22 - a12 * a21)) * a32 = y * d"
    unfolding d_def by (simp add: algebra_simps)
  have c3: "(x * (a22 * a33 - a23 * a32) + y * (a23 * a31 - a21 * a33)
              + z * (a21 * a32 - a22 * a31)) * a13
          + (x * (a13 * a32 - a12 * a33) + y * (a11 * a33 - a13 * a31)
              + z * (a12 * a31 - a11 * a32)) * a23
          + (x * (a12 * a23 - a13 * a22) + y * (a13 * a21 - a11 * a23)
              + z * (a11 * a22 - a12 * a21)) * a33 = z * d"
    unfolding d_def by (simp add: algebra_simps)
  have e1: "(x * ((a22 * a33 - a23 * a32) / d) + y * ((a23 * a31 - a21 * a33) / d)
              + z * ((a21 * a32 - a22 * a31) / d)) * a11
          + (x * ((a13 * a32 - a12 * a33) / d) + y * ((a11 * a33 - a13 * a31) / d)
              + z * ((a12 * a31 - a11 * a32) / d)) * a21
          + (x * ((a12 * a23 - a13 * a22) / d) + y * ((a13 * a21 - a11 * a23) / d)
              + z * ((a11 * a22 - a12 * a21) / d)) * a31 = x"
    unfolding scaled_rows c1 using d by simp
  have e2: "(x * ((a22 * a33 - a23 * a32) / d) + y * ((a23 * a31 - a21 * a33) / d)
              + z * ((a21 * a32 - a22 * a31) / d)) * a12
          + (x * ((a13 * a32 - a12 * a33) / d) + y * ((a11 * a33 - a13 * a31) / d)
              + z * ((a12 * a31 - a11 * a32) / d)) * a22
          + (x * ((a12 * a23 - a13 * a22) / d) + y * ((a13 * a21 - a11 * a23) / d)
              + z * ((a11 * a22 - a12 * a21) / d)) * a32 = y"
    unfolding scaled_rows c2 using d by simp
  have e3: "(x * ((a22 * a33 - a23 * a32) / d) + y * ((a23 * a31 - a21 * a33) / d)
              + z * ((a21 * a32 - a22 * a31) / d)) * a13
          + (x * ((a13 * a32 - a12 * a33) / d) + y * ((a11 * a33 - a13 * a31) / d)
              + z * ((a12 * a31 - a11 * a32) / d)) * a23
          + (x * ((a12 * a23 - a13 * a22) / d) + y * ((a13 * a21 - a11 * a23) / d)
              + z * ((a11 * a22 - a12 * a21) / d)) * a33 = z"
    unfolding scaled_rows c3 using d by simp
  show ?thesis
    unfolding m mi v vecmat.simps e1 e2 e3 ..
qed

lemma inv3_defined: "det3 m \<noteq> 0 \<Longrightarrow> \<exists>mi. inv3 m = Inr mi"
proof -
  assume nz: "det3 m \<noteq> 0"
  obtain a11 a12 a13 a21 a22 a23 a31 a32 a33 where
    m: "m = ((a11, a12, a13), (a21, a22, a23), (a31, a32, a33))"
    by (metis prod_cases3)
  show ?thesis using nz unfolding m inv3.simps Let_def by simp
qed

lemma dot_positions_inv3:
  assumes "inv3 m = Inr mi"
  shows "dot_positions (dot_positions atoms mi) m = atoms"
  by (simp add: dot_positions_def vecmat_inv3 [OF assms] map_idI)

text \<open>
  Claim C1: for a Structure whose lattice basis is invertible, a call of \<open>reconcile\<close>
  with \<open>'C'\<close> or \<open>'D'\<close> returns normally, and afterwards every atom satisfies
  \<open>cartesian.position = direct.position \<cdot> coordinates\<close> (the two arrays also agree on the
  elements, atom by atom).
\<close>

theorem reconcile_consistent:
  assumes "det3 (coordinates s) \<noteq> 0"
    and "according_to = ''C'' \<or> according_to = ''D''"
  shows "fst (reconcile s according_to) = Inr () \<and>
         cartesian (snd (reconcile s according_to)) =
           dot_positions (direct (snd (reconcile s according_to)))
             (coordinates (snd (reconcile s according_to)))"
proof -
  from assms(1) obtain mi where mi: "inv3 (coordinates s) = Inr mi"
    using inv3_defined by blast
  from assms(2) show ?thesis
  proof
    assume "according_to = ''C''"
    then show ?thesis
      by (simp add: reconcile_def Let_def mi dot_positions_inv3 [OF mi])
  next
    assume "according_to = ''D''"
    then show ?thesis
      by (simp add: reconcile_def Let_def)
  qed
qed

theorem reconcile_consistent_witness:
  "det3 (coordinates \<lparr>comment = ''w'', coordinates = ((2, 0, 0), (0, 2, 0), (0, 0, 2)),
           direct = [], cartesian = [\<lparr>position = (2, 4, 6), element = ''B''\<rparr>,
                                     \<lparr>position = (1, 0, 0), element = ''A''\<rparr>]\<rparr>) \<noteq> 0 \<and>
   (''C'' = ''C'' \<or> ''C'' = ''D'') \<and>
   reconcile \<lparr>comment = ''w'', coordinates = ((2, 0, 0), (0, 2, 0), (0, 0, 2)),
           direct = [], cartesian = [\<lparr>position = (2, 4, 6), element = ''B''\<rparr>,
                                     \<lparr>position = (1, 0, 0), element = ''A''\<rparr>]\<rparr> ''C'' =
     (Inr (), \<lparr>comment = ''w'', coordinates = ((2, 0, 0), (0, 2, 0), (0, 0, 2)),
           direct = [\<lparr>position = (1 / 2, 0, 0), element = ''A''\<rparr>,
                     \<lparr>position = (1, 2, 3), element = ''B''\<rparr>],
           cartesian = [\<lparr>position = (1, 0, 0), element = ''A''\<rparr>,
                        \<lparr>position = (2, 4, 6), element = ''B''\<rparr>]\<rparr>) \<and>
   cartesian (snd (reconcile \<lparr>comment = ''w'', coordinates = ((2, 0, 0), (0, 2, 0), (0, 0, 2)),
           direct = [], cartesian = [\<lparr>position = (2, 4, 6), element = ''B''\<rparr>,
                                     \<lparr>position = (1, 0, 0), element = ''A''\<rparr>]\<rparr> ''C'')) =
   dot_positions (direct (snd (reconcile \<lparr>comment = ''w'', coordinates = ((2, 0, 0), (0, 2, 0), (0, 0, 2)),
           direct = [], cartesian = [\<lparr>position = (2, 4, 6), element = ''B''\<rparr>,
                                     \<lparr>position = (1, 0, 0), element = ''A''\<rparr>]\<rparr> ''C'')))
     ((2, 0, 0), (0, 2, 0), (0, 0, 2))"
proof -
  have h1: "det3 (coordinates \<lparr>comment = ''w'', coordinates = ((2, 0, 0), (0, 2, 0), (0, 0, 2)),
           direct = [], cartesian = [\<lparr>position = (2, 4, 6), element = ''B''\<rparr>,
                                     \<lparr>position = (1, 0, 0), element = ''A''\<rparr>]\<rparr>) \<noteq> 0"
    by simp
  have h2: "''C'' = ''C'' \<or> ''C'' = ''D''" by simp
  have r: "reconcile \<lparr>comment = ''w'', coordinates = ((2, 0, 0), (0, 2, 0), (0, 0, 2)),
           direct = [], cartesian = [\<lparr>position = (2, 4, 6), element = ''B''\<rparr>,
                                     \<lparr>position = (1, 0, 0), element = ''A''\<rparr>]\<rparr> ''C'' =
     (Inr (), \<lparr>comment = ''w'', coordinates = ((2, 0, 0), (0, 2, 0), (0, 0, 2)),
           direct = [\<lparr>position = (1 / 2, 0, 0), element = ''A''\<rparr>,
                     \<lparr>position = (1, 2, 3), element = ''B''\<rparr>],
           cartesian = [\<lparr>position = (1, 0, 0), element = ''A''\<rparr>,
                        \<lparr>position = (2, 4, 6), element = ''B''\<rparr>]\<rparr>)"
    by (simp add: reconcile_def sort_by_element_def dot_positions_def Let_def
          less_eq_char_def less_char_def)
  show ?thesis
    using h1 h2 r reconcile_consistent [OF h1 h2] by simp
qed

section \<open>Combining two structures\<close>

lemma vecmat_halve_double:
  "vecmat (x, y, z / 2) (double_row_2 m) = vecmat (x, y, z) m"
proof -
  obtain a11 a12 a13 a21 a22 a23 a31 a32 a33 where
    m: "m = ((a11, a12, a13), (a21, a22, a23), (a31, a32, a33))"
    by (metis prod_cases3)
  show ?thesis by (simp add: m)
qed

lemma dot_halve_z:
  "(halve_z a)\<lparr>position := vecmat (position (halve_z a)) (double_row_2 m)\<rparr> =
   a\<lparr>position := vecmat (position a) m\<rparr>"
  by (cases "position a") (simp add: vecmat_halve_double)

lemma dot_positions_halve_z:
  "dot_positions (map halve_z atoms) (double_row_2 m) = dot_positions atoms m"
  unfolding dot_positions_def map_map comp_def dot_halve_z ..

lemma mset_dot_positions_sort:
  "mset (dot_positions (sort_by_element (xs @ ys)) m) =
   mset (dot_positions xs m) + mset (dot_positions ys m)"
proof -
  have "mset (map f (sort_key element (xs @ ys))) = mset (map f xs) + mset (map f ys)"
    for f :: "atom \<Rightarrow> atom"
    unfolding mset_map mset_sort mset_append image_mset_union ..
  then show ?thesis by (simp only: dot_positions_def sort_by_element_def)
qed

lemma combine_structures_cartesian:
  "cartesian (fst (snd (combine_structures struct_1 struct_2))) =
     dot_positions
       (sort_by_element (map halve_z (direct struct_1) @
          map (add_z (1 / 2)) (map halve_z (direct struct_2))))
       (double_row_2 (coordinates struct_1))"
  by (simp add: combine_structures_def reconcile_def Let_def)

text \<open>
  Claim C10: \<open>combine_structures\<close> returns normally and leaves every atom of the first
  structure where it was: halving the fractional z coordinate and doubling the third
  lattice vector cancel, so each atom of \<open>struct_1.direct\<close> appears in the new
  \<open>cartesian\<close> array at the absolute position \<open>position \<cdot> coordinates\<close> it had
  before the call, with its element. When \<open>struct_1\<close> was reconciled before the call,
  these are the entries of its old \<open>cartesian\<close> array. (Multisets, since the
  reconciliation re-sorts the atoms by element.)
\<close>

theorem combine_structures_keeps_struct_1:
  "fst (combine_structures struct_1 struct_2) = Inr () \<and>
   mset (dot_positions (direct struct_1) (coordinates struct_1))
     \<subseteq># mset (cartesian (fst (snd (combine_structures struct_1 struct_2)))) \<and>
   (cartesian struct_1 = dot_positions (direct struct_1) (coordinates struct_1) \<longrightarrow>
    mset (cartesian struct_1)
      \<subseteq># mset (cartesian (fst (snd (combine_structures struct_1 struct_2)))))"
proof -
  have r: "fst (combine_structures struct_1 struct_2) = Inr ()"
    by (simp add: combine_structures_def reconcile_def Let_def)
  have "mset (cartesian (fst (snd (combine_structures struct_1 struct_2)))) =
        mset (dot_positions (direct struct_1) (coordinates struct_1)) +
        mset (dot_positions (map (add_z (1 / 2)) (map halve_z (direct struct_2)))
                (double_row_2 (coordinates struct_1)))"
    unfolding combine_structures_cartesian mset_dot_positions_sort dot_positions_halve_z ..
  then have "mset (dot_positions (direct struct_1) (coordinates struct_1))
     \<subseteq># mset (cartesian (fst (snd (combine_structures struct_1 struct_2))))"
    by simp
  with r show ?thesis by simp
qed

theorem combine_structures_keeps_struct_1_witness:
  "cartesian \<lparr>comment = ''a'', coordinates = ((1, 0, 0), (0, 1, 0), (0, 0, 3)),
       direct = [\<lparr>position = (0, 0, 1 / 3), element = ''Si''\<rparr>],
       cartesian = [\<lparr>position = (0, 0, 1), element = ''Si''\<rparr>]\<rparr> =
     dot_positions (direct \<lparr>comment = ''a'', coordinates = ((1, 0, 0), (0, 1, 0), (0, 0, 3)),
       direct = [\<lparr>position = (0, 0, 1 / 3), element = ''Si''\<rparr>],
       cartesian = [\<lparr>position = (0, 0, 1), element = ''Si''\<rparr>]\<rparr>) ((1, 0, 0), (0, 1, 0), (0, 0, 3)) \<and>
   combine_structures
     \<lparr>comment = ''a'', coordinates = ((1, 0, 0), (0, 1, 0), (0, 0, 3)),
       direct = [\<lparr>position = (0, 0, 1 / 3), element = ''Si''\<rparr>],
       cartesian = [\<lparr>position = (0, 0, 1), element = ''Si''\<rparr>]\<rparr>
     \<lparr>comment = ''b'', coordinates = ((1, 0, 0), (0, 1, 0), (0, 0, 3)),
       direct = [\<lparr>position = (0, 0, 0), element = ''C''\<rparr>],
       cartesian = [\<lparr>position = (0, 0, 0), element = ''C''\<rparr>]\<rparr> =
     (Inr (),
      \<lparr>comment = ''a_b'', coordinates = ((1, 0, 0), (0, 1, 0), (0, 0, 6)),
       direct = [\<lparr>position = (0, 0, 1 / 2), element = ''C''\<rparr>,
                 \<lparr>position = (0, 0, 1 / 6), element = ''Si''\<rparr>],
       cartesian = [\<lparr>position = (0, 0, 3), element = ''C''\<rparr>,
                    \<lparr>position = (0, 0, 1), element = ''Si''\<rparr>]\<rparr>,
      \<lparr>comment = ''b'', coordinates = ((1, 0, 0), (0, 1, 0), (0, 0, 3)),
       direct = [\<lparr>position = (0, 0, 1 / 2), element = ''C''\<rparr>],
       cartesian = [\<lparr>position = (0, 0, 0), element = ''C''\<rparr>]\<rparr>) \<and>
   mset [\<lparr>position = (0, 0, 1), element = ''Si''\<rparr>] \<subseteq>#
   mset (cartesian (fst (snd (combine_structures
     \<lparr>comment = ''a'', coordinates = ((1, 0, 0), (0, 1, 0), (0, 0, 3)),
       direct = [\<lparr>position = (0, 0, 1 / 3), element = ''Si''\<rparr>],
       cartesian = [\<lparr>position = (0, 0, 1), element = ''Si''\<rparr>]\<rparr>
     \<lparr>comment = ''b'', coordinates = ((1, 0, 0), (0, 1, 0), (0, 0, 3)),
       direct = [\<lparr>position = (0, 0, 0), element = ''C''\<rparr>],
       cartesian = [\<lparr>position = (0, 0, 0), element = ''C''\<rparr>]\<rparr>))))"
proof -
  have h: "cartesian \<lparr>comment = ''a'', coordinates = ((1, 0, 0), (0, 1, 0), (0, 0, 3)),
       direct = [\<lparr>position = (0, 0, 1 / 3), element = ''Si''\<rparr>],
       cartesian = [\<lparr>position = (0, 0, 1), element = ''Si''\<rparr>]\<rparr> =
     dot_positions (direct \<lparr>comment = ''a'', coordinates = ((1, 0, 0), (0, 1, 0), (0, 0, 3)),
       direct = [\<lparr>position = (0, 0, 1 / 3), element = ''Si''\<rparr>],
       cartesian = [\<lparr>position = (0, 0, 1), element = ''Si''\<rparr>]\<rparr>) ((1, 0, 0), (0, 1, 0), (0, 0, 3))"
    by (simp add: dot_positions_def)
  have c: "combine_structures
     \<lparr>comment = ''a'', coordinates = ((1, 0, 0), (0, 1, 0), (0, 0, 3)),
       direct = [\<lparr>position = (0, 0, 1 / 3), element = ''Si''\<rparr>],
       cartesian = [\<lparr>position = (0, 0, 1), element = ''Si''\<rparr>]\<rparr>
     \<lparr>comment = ''b'', coordinates = ((1, 0, 0), (0, 1, 0), (0, 0, 3)),
       direct = [\<lparr>position = (0, 0, 0), element = ''C''\<rparr>],
       cartesian = [\<lparr>position = (0, 0, 0), element = ''C''\<rparr>]\<rparr> =
     (Inr (),
      \<lparr>comment = ''a_b'', coordinates = ((1, 0, 0), (0, 1, 0), (0, 0, 6)),
       direct = [\<lparr>position = (0, 0, 1 / 2), element = ''C''\<rparr>,
                 \<lparr>position = (0, 0, 1 / 6), element = ''Si''\<rparr>],
       cartesian = [\<lparr>position = (0, 0, 3), element = ''C''\<rparr>,
                    \<lparr>position = (0, 0, 1), element = ''Si''\<rparr>]\<rparr>,
      \<lparr>comment = ''b'', coordinates = ((1, 0, 0), (0, 1, 0), (0, 0, 3)),
       direct = [\<lparr>position = (0, 0, 1 / 2), element = ''C''\<rparr>],
       cartesian = [\<lparr>position = (0, 0, 0), element = ''C''\<rparr>]\<rparr>)"
    by (simp add: combine_structures_def reconcile_def sort_by_element_def dot_positions_def
          Let_def less_eq_char_def less_char_def)
  show ?thesis
    using h c combine_structures_keeps_struct_1
      [of "\<lparr>comment = ''a'', coordinates = ((1, 0, 0), (0, 1, 0), (0, 0, 3)),
       direct = [\<lparr>position = (0, 0, 1 / 3), element = ''Si''\<rparr>],
       cartesian = [\<lparr>position = (0, 0, 1), element = ''Si''\<rparr>]\<rparr>"
          "\<lparr>comment = ''b'', coordinates = ((1, 0, 0), (0, 1, 0), (0, 0, 3)),
       direct = [\<lparr>position = (0, 0, 0), element = ''C''\<rparr>],
       cartesian = [\<lparr>position = (0, 0, 0), element = ''C''\<rparr>]\<rparr>"]
    by simp
qed

section \<open>The corner pass\<close>

text \<open>
  Claim C9: the result of \<open>remove_collision_at_corners\<close>, final Structure and
  removed-atom count (or error), is the same for \<open>random_delete = True\<close> and
  \<open>random_delete = False\<close>: the corner pass never reads the flag.
\<close>

theorem remove_collision_at_corners_ignores_random_delete:
  "remove_collision_at_corners dir_vecs struct boundary_radius min_dist_dict True =
   remove_collision_at_corners dir_vecs struct boundary_radius min_dist_dict False"
  by (simp add: remove_collision_at_corners_def)

section \<open>Supercell growth\<close>

subsection \<open>The search loop\<close>

lemma grow_loop_exit:
  "grow_loop shell max_atoms st = (q, sp, e) \<Longrightarrow> max_atoms < int (length e) \<or> q = []"
proof (induction shell max_atoms st rule: grow_loop.induct)
  case (1 shell max_atoms supercell_pos searched_pos enlarged_struct)
  show ?case
  proof (cases "int (length enlarged_struct) \<le> max_atoms \<and> length supercell_pos > 0")
    case False
    with "1.prems" show ?thesis by (subst (asm) grow_loop.simps) auto
  next
    case True
    note c = True
    show ?thesis
    proof (cases "hd supercell_pos \<in> searched_pos")
      case True
      with c "1.prems" have "grow_loop shell max_atoms (tl supercell_pos, searched_pos, enlarged_struct) = (q, sp, e)"
        by (subst (asm) grow_loop.simps) (simp add: Let_def)
      with "1.IH"(1) [OF c refl refl True] show ?thesis .
    next
      case False
      note ns = False
      show ?thesis
      proof (cases "length (shell (hd supercell_pos)) > 0")
        case True
        with c ns "1.prems" have "grow_loop shell max_atoms
                      (tl supercell_pos @
                         filter (\<lambda>p. p \<notin> insert (hd supercell_pos) searched_pos)
                           (map (\<lambda>x. ivec_add x (hd supercell_pos)) search_dirs),
                       insert (hd supercell_pos) searched_pos,
                       enlarged_struct @ shell (hd supercell_pos)) = (q, sp, e)"
          by (subst (asm) grow_loop.simps) (simp add: Let_def)
        with "1.IH"(2) [OF c refl refl ns refl refl True] show ?thesis .
      next
        case False
        with c ns "1.prems" have "grow_loop shell max_atoms
                      (tl supercell_pos, insert (hd supercell_pos) searched_pos, enlarged_struct) = (q, sp, e)"
          by (subst (asm) grow_loop.simps) (simp add: Let_def)
        with "1.IH"(3) [OF c refl refl ns refl refl False] show ?thesis .
      qed
    qed
  qed
qed

lemma inv3_error: "inv3 m = Inl e \<Longrightarrow> e = LinAlgError"
proof -
  obtain a11 a12 a13 a21 a22 a23 a31 a32 a33 where
    m: "m = ((a11, a12, a13), (a21, a22, a23), (a31, a32, a33))"
    by (metis prod_cases3)
  assume "inv3 m = Inl e"
  then show ?thesis unfolding m inv3.simps Let_def by (simp split: if_splits)
qed

lemma reconcile_D:
  "reconcile s ''D'' =
     (Inr (), s\<lparr>direct := sort_by_element (direct s),
               cartesian := dot_positions (sort_by_element (direct s)) (coordinates s)\<rparr>)"
  by (simp add: reconcile_def Let_def)

lemma grow_to_supercell_unfold:
  assumes "inv3 (strengthen_diagonal lattice_vecs) = Inr ci"
    and "snd (snd (grow_loop (shifted_atoms (coordinates s) (cartesian s) ci) max_atoms
            (supercell_pos_init, {}, []))) = e"
  shows "grow_to_supercell s lattice_vecs max_atoms =
     (if length (np_unique e) \<le> 0
      then (Inl (ValueError ''Grown super-cell is empty''), s\<lparr>direct := np_unique e\<rparr>)
      else reconcile (s\<lparr>direct := sort_by_element (np_unique e), coordinates := lattice_vecs\<rparr>) ''D'')"
proof -
  obtain q sp e' where g: "grow_loop (shifted_atoms (coordinates s) (cartesian s) ci) max_atoms
            (supercell_pos_init, {}, []) = (q, sp, e')"
    by (metis prod_cases3)
  with assms(2) have "e' = e" by simp
  with g assms(1) show ?thesis
    by (simp add: grow_to_supercell_def Let_def)
qed

subsection \<open>The shells of a one-atom cubic cell\<close>

lemma inv3_cubic_2:
  "inv3 (strengthen_diagonal (cubic 2)) = Inr (cubic (100000 / 200001))"
  by (simp add: cubic_def Let_def)

lemma inv3_cubic_quarter:
  "inv3 (strengthen_diagonal (cubic (1 / 4))) = Inr (cubic (100000 / 25001))"
  by (simp add: cubic_def Let_def)

lemma shifted_atoms_unit_cell_2:
  assumes "1 / 100000 \<le> x" "x < 1" "1 / 100000 \<le> y" "y < 1" "1 / 100000 \<le> z" "z < 1"
  shows "shifted_atoms ((1, 0, 0), (0, 1, 0), (0, 0, 1)) [\<lparr>position = (x, y, z), element = e\<rparr>]
           (cubic (100000 / 200001)) k =
         (if cube 2 k then [image_atom (x, y, z) e k] else [])"
proof -
  obtain a b c where k: "k = (a, b, c)" by (metis prod_cases3)
  have r: "0 \<le> (t + real_of_int i) * 100000 / 200001 \<and> (t + real_of_int i) * 100000 / 200001 < 1
           \<longleftrightarrow> 0 \<le> i \<and> i < 2"
    if "1 / 100000 \<le> t" "t < 1" for t :: real and i :: int
  proof -
    define u where "u = t + real_of_int i"
    have "0 \<le> u * 100000 / 200001 \<longleftrightarrow> 0 \<le> u" by simp
    moreover have "u * 100000 / 200001 < 1 \<longleftrightarrow> u < 200001 / 100000"
      by (simp add: field_simps)
    moreover have "0 \<le> u \<longleftrightarrow> 0 \<le> i" unfolding u_def using that by linarith
    moreover have "u < 200001 / 100000 \<longleftrightarrow> i < 2"
    proof
      assume "u < 200001 / 100000"
      with that have "real_of_int i < 2" unfolding u_def by simp
      then show "i < 2" by linarith
    next
      assume "i < 2"
      then have "real_of_int i \<le> 1" by linarith
      with that show "u < 200001 / 100000" unfolding u_def by simp
    qed
    ultimately show ?thesis unfolding u_def by blast
  qed
  show ?thesis
    using r [OF assms(1,2), of a] r [OF assms(3,4), of b] r [OF assms(5,6), of c]
    by (auto simp: k shifted_atoms_def dot_positions_def cubic_def cube_def image_atom_def Let_def
          mult.commute)
qed

lemma shifted_atoms_origin:
  "shifted_atoms ((1, 0, 0), (0, 1, 0), (0, 0, 1)) [\<lparr>position = (0, 0, 0), element = e\<rparr>]
           (cubic (100000 / 200001)) k =
         (if cube 3 k then [image_atom (0, 0, 0) e k] else [])"
proof -
  obtain a b c where k: "k = (a, b, c)" by (metis prod_cases3)
  have r: "0 \<le> real_of_int i * 100000 / 200001 \<and> real_of_int i * 100000 / 200001 < 1
           \<longleftrightarrow> 0 \<le> i \<and> i < 3" for i :: int
  proof -
    have "real_of_int i * 100000 / 200001 < 1 \<longleftrightarrow> real_of_int i < 200001 / 100000"
      by (simp add: field_simps)
    moreover have "real_of_int i < 200001 / 100000 \<longleftrightarrow> i < 3"
    proof
      assume "real_of_int i < 200001 / 100000"
      then have "real_of_int i < 3" by simp
      then show "i < 3" by linarith
    next
      assume "i < 3"
      then have "real_of_int i \<le> 2" by linarith
      then show "real_of_int i < 200001 / 100000" by simp
    qed
    ultimately show ?thesis by simp
  qed
  show ?thesis
    using r [of a] r [of b] r [of c]
    by (auto simp: k shifted_atoms_def dot_positions_def cubic_def cube_def image_atom_def Let_def
          mult.commute)
qed

lemma shifted_atoms_centre_quarter:
  "shifted_atoms ((1, 0, 0), (0, 1, 0), (0, 0, 1)) [\<lparr>position = (1 / 2, 1 / 2, 1 / 2), element = e\<rparr>]
           (cubic (100000 / 25001)) k = []"
proof -
  obtain a b c where k: "k = (a, b, c)" by (metis prod_cases3)
  have "\<not> (0 \<le> (1 / 2 + real_of_int a) * 100000 / 25001 \<and>
            (1 / 2 + real_of_int a) * 100000 / 25001 < 1)"
  proof
    assume h: "0 \<le> (1 / 2 + real_of_int a) * 100000 / 25001 \<and>
            (1 / 2 + real_of_int a) * 100000 / 25001 < 1"
    then have "0 \<le> 1 / 2 + real_of_int a" by simp
    then have "0 \<le> a" by linarith
    moreover from h have "(1 / 2 + real_of_int a) < 25001 / 100000" by (simp add: field_simps)
    then have "a < 0" by linarith
    ultimately show False by simp
  qed
  then show ?thesis
    by (auto simp: k shifted_atoms_def dot_positions_def cubic_def Let_def mult.commute)
qed

lemma inj_image_atom: "image_atom p e k = image_atom p e k' \<Longrightarrow> k = k'"
proof -
  obtain x y z where p: "p = (x, y, z)" by (metis prod_cases3)
  obtain a b c where k: "k = (a, b, c)" by (metis prod_cases3)
  obtain a' b' c' where k': "k' = (a', b', c')" by (metis prod_cases3)
  assume "image_atom p e k = image_atom p e k'"
  then show ?thesis by (simp add: image_atom_def p k k')
qed

lemma distinct_image_atoms: "distinct ks \<Longrightarrow> distinct (map (image_atom p e) ks)"
  by (auto simp: distinct_map inj_on_def dest: inj_image_atom)

lemma np_unique_distinct:
  "distinct atoms \<Longrightarrow>
   length (np_unique atoms) = length atoms \<and> mset (np_unique atoms) = mset atoms \<and>
   distinct (np_unique atoms)"
  by (simp add: np_unique_def distinct_remdups_id)

lemma grown_direct:
  assumes "inv3 (strengthen_diagonal lattice_vecs) = Inr ci"
    and "snd (snd (grow_loop (shifted_atoms (coordinates s) (cartesian s) ci) max_atoms
            (supercell_pos_init, {}, []))) = e"
    and "distinct e" and "e \<noteq> []"
  shows "fst (grow_to_supercell s lattice_vecs max_atoms) = Inr () \<and>
         length (direct (snd (grow_to_supercell s lattice_vecs max_atoms))) = length e \<and>
         mset (direct (snd (grow_to_supercell s lattice_vecs max_atoms))) = mset e"
proof -
  from assms(3,4) np_unique_distinct [OF assms(3)]
  have n: "\<not> length (np_unique e) \<le> 0" by simp
  show ?thesis
    unfolding grow_to_supercell_unfold [OF assms(1,2)]
    using n np_unique_distinct [OF assms(3)]
    by (simp add: reconcile_D sort_by_element_def)
qed

lemma grow_loop_nothing:
  "snd (snd (grow_loop (\<lambda>k. []) max_atoms (supercell_pos_init, {}, []))) = []"
  by (simp add: grow_loop.simps supercell_pos_init_def Let_def)

lemma grow_loop_cube_2:
  "snd (snd (grow_loop (\<lambda>k. if cube 2 k then [f k] else []) 100 (supercell_pos_init, {}, []))) =
   map f [(0, 0, 0), (1, 0, 0), (0, 1, 0), (0, 0, 1), (1, 1, 0), (0, 1, 1), (1, 0, 1), (1, 1, 1)]"
  by (simp add: grow_loop.simps supercell_pos_init_def search_dirs_def cube_def Let_def)

lemma grow_loop_cube_2_max_0:
  "snd (snd (grow_loop (\<lambda>k. if cube 2 k then [f k] else []) 0 (supercell_pos_init, {}, []))) =
   [f (0, 0, 0)]"
  by (simp add: grow_loop.simps supercell_pos_init_def search_dirs_def cube_def Let_def)

lemma grow_loop_cube_3:
  "snd (snd (grow_loop (\<lambda>k. if cube 3 k then [f k] else []) 100 (supercell_pos_init, {}, []))) =
   map f [(0, 0, 0), (1, 0, 0), (0, 1, 0), (0, 0, 1), (1, 1, 0), (0, 1, 1),
   (1, 0, 1), (1, 1, 1), (2, 0, 0), (2, 1, 0), (2, 0, 1), (2, 1, 1),
   (0, 2, 0), (1, 2, 0), (0, 2, 1), (1, 2, 1), (0, 0, 2), (0, 1, 2),
   (1, 0, 2), (1, 1, 2), (2, 2, 0), (2, 2, 1), (0, 2, 2), (1, 2, 2),
   (2, 0, 2), (2, 1, 2), (2, 2, 2)]"
  by (simp add: grow_loop.simps supercell_pos_init_def search_dirs_def cube_def Let_def)

lemma grow_loop_interior:
  assumes "1 / 100000 \<le> x" "x < 1" "1 / 100000 \<le> y" "y < 1" "1 / 100000 \<le> z" "z < 1"
  shows "shifted_atoms (coordinates (unit_cell c [\<lparr>position = (x, y, z), element = e\<rparr>]))
        (cartesian (unit_cell c [\<lparr>position = (x, y, z), element = e\<rparr>])) (cubic (100000 / 200001)) =
        (\<lambda>k. if cube 2 k then [image_atom (x, y, z) e k] else [])"
  by (rule ext) (simp add: unit_cell_def shifted_atoms_unit_cell_2 [OF assms])

lemma grow_loop_origin:
  "snd (snd (grow_loop (shifted_atoms (coordinates (unit_cell c [\<lparr>position = (0, 0, 0), element = e\<rparr>]))
        (cartesian (unit_cell c [\<lparr>position = (0, 0, 0), element = e\<rparr>])) (cubic (100000 / 200001)))
        100 (supercell_pos_init, {}, []))) =
   map (image_atom (0, 0, 0) e) [(0, 0, 0), (1, 0, 0), (0, 1, 0), (0, 0, 1), (1, 1, 0), (0, 1, 1),
   (1, 0, 1), (1, 1, 1), (2, 0, 0), (2, 1, 0), (2, 0, 1), (2, 1, 1),
   (0, 2, 0), (1, 2, 0), (0, 2, 1), (1, 2, 1), (0, 0, 2), (0, 1, 2),
   (1, 0, 2), (1, 1, 2), (2, 2, 0), (2, 2, 1), (0, 2, 2), (1, 2, 2),
   (2, 0, 2), (2, 1, 2), (2, 2, 2)]"
proof -
  have "shifted_atoms (coordinates (unit_cell c [\<lparr>position = (0, 0, 0), element = e\<rparr>]))
        (cartesian (unit_cell c [\<lparr>position = (0, 0, 0), element = e\<rparr>])) (cubic (100000 / 200001)) =
        (\<lambda>k. if cube 3 k then [image_atom (0, 0, 0) e k] else [])"
    by (rule ext) (simp add: unit_cell_def shifted_atoms_origin)
  then show ?thesis by (simp only: grow_loop_cube_3)
qed

lemma grow_centre_quarter:
  "grow_to_supercell (unit_cell c [\<lparr>position = (1 / 2, 1 / 2, 1 / 2), element = e\<rparr>])
      (cubic (1 / 4)) max_atoms =
   (Inl (ValueError ''Grown super-cell is empty''),
    (unit_cell c [\<lparr>position = (1 / 2, 1 / 2, 1 / 2), element = e\<rparr>])\<lparr>direct := []\<rparr>)"
proof -
  have s: "shifted_atoms (coordinates (unit_cell c [\<lparr>position = (1 / 2, 1 / 2, 1 / 2), element = e\<rparr>]))
        (cartesian (unit_cell c [\<lparr>position = (1 / 2, 1 / 2, 1 / 2), element = e\<rparr>]))
        (cubic (100000 / 25001)) = (\<lambda>k. [])"
    by (rule ext) (simp add: unit_cell_def shifted_atoms_centre_quarter)
  have g: "snd (snd (grow_loop (shifted_atoms (coordinates (unit_cell c [\<lparr>position = (1 / 2, 1 / 2, 1 / 2), element = e\<rparr>]))
        (cartesian (unit_cell c [\<lparr>position = (1 / 2, 1 / 2, 1 / 2), element = e\<rparr>]))
        (cubic (100000 / 25001))) max_atoms (supercell_pos_init, {}, []))) = []"
    by (simp only: s grow_loop_nothing)
  show ?thesis
    unfolding grow_to_supercell_unfold [OF inv3_cubic_quarter g]
    by (simp add: np_unique_def)
qed

lemma grow_centre_max_0:
  "length (direct (snd (grow_to_supercell
      (unit_cell c [\<lparr>position = (1 / 2, 1 / 2, 1 / 2), element = e\<rparr>]) (cubic 2) 0))) = 1"
proof -
  have h1: "1 / 100000 \<le> (1 / 2 :: real)" and h2: "(1 / 2 :: real) < 1" by simp_all
  have g: "snd (snd (grow_loop (shifted_atoms (coordinates (unit_cell c [\<lparr>position = (1 / 2, 1 / 2, 1 / 2), element = e\<rparr>]))
        (cartesian (unit_cell c [\<lparr>position = (1 / 2, 1 / 2, 1 / 2), element = e\<rparr>])) (cubic (100000 / 200001)))
        0 (supercell_pos_init, {}, []))) = [image_atom (1 / 2, 1 / 2, 1 / 2) e (0, 0, 0)]"
    by (simp only: grow_loop_interior [OF h1 h2 h1 h2 h1 h2] grow_loop_cube_2_max_0)
  show ?thesis using grown_direct [OF inv3_cubic_2 g] by simp
qed

subsection \<open>Termination of the search\<close>

text \<open>
  Claim C5: \<open>grow_to_supercell\<close> terminates for every Structure, target lattice and
  \<open>max_atoms\<close>: its search loop is a total function (each round either adds at least one
  atom while the count is at most \<open>max_atoms\<close>, or shortens the queue), and it ends exactly
  when the queue is exhausted or the accumulated atom count exceeds \<open>max_atoms\<close>: the
  state it returns satisfies this, and a state that satisfies it is returned as it is.
  The bound is tested only between shells, so the count that is returned may exceed
  \<open>max_atoms\<close>: with \<open>max_atoms = 0\<close> a one-atom cell grows to one atom.
\<close>

theorem grow_loop_terminates:
  "(case grow_loop shell max_atoms (supercell_pos, searched_pos, enlarged_struct) of
      (q, sp, e) \<Rightarrow> max_atoms < int (length e) \<or> length q = 0) \<and>
   (max_atoms < int (length enlarged_struct) \<or> length supercell_pos = 0 \<longrightarrow>
      grow_loop shell max_atoms (supercell_pos, searched_pos, enlarged_struct) =
        (supercell_pos, searched_pos, enlarged_struct)) \<and>
   int (length (direct (snd (grow_to_supercell
      (unit_cell ''cubic'' [\<lparr>position = (1 / 2, 1 / 2, 1 / 2), element = ''X''\<rparr>]) (cubic 2) 0)))) > 0"
proof -
  obtain q sp e where
    g: "grow_loop shell max_atoms (supercell_pos, searched_pos, enlarged_struct) = (q, sp, e)"
    by (metis prod_cases3)
  have stop: "grow_loop shell max_atoms (supercell_pos, searched_pos, enlarged_struct) =
        (supercell_pos, searched_pos, enlarged_struct)"
    if "max_atoms < int (length enlarged_struct) \<or> length supercell_pos = 0"
    using that by (subst grow_loop.simps) auto
  from grow_loop_exit [OF g] g stop show ?thesis by (simp add: grow_centre_max_0)
qed

theorem grow_loop_terminates_witness:
  "((0 :: int) < int (length ([] :: atom list)) \<or> length ([] :: ivec3 list) = 0) \<and>
   grow_loop (\<lambda>k. []) 0 ([], {}, []) = ([], {}, [])"
  using grow_loop_terminates [where shell = "\<lambda>k. []" and max_atoms = 0
      and supercell_pos = "[]" and searched_pos = "{}" and enlarged_struct = "[]"]
  by simp

subsection \<open>The call that fails with an empty result\<close>

text \<open>
  Claim C2, as stated, says that a call failing with the empty-result error leaves
  \<open>direct\<close>, \<open>cartesian\<close> and the lattice vectors as they were. The method assigns
  \<open>self.direct = np.unique(enlarged_struct)\<close> before it tests the length: growing the
  unit cube with one atom at its centre into a cube of side 1/4 fails with that error,
  and \<open>direct\<close>, which held the atom, is empty afterwards.
\<close>

theorem grow_to_supercell_failure_empties_direct:
  "fst (grow_to_supercell (unit_cell ''cubic'' [\<lparr>position = (1 / 2, 1 / 2, 1 / 2), element = ''X''\<rparr>])
          (cubic (1 / 4)) 100) = Inl (ValueError ''Grown super-cell is empty'') \<and>
   direct (snd (grow_to_supercell
          (unit_cell ''cubic'' [\<lparr>position = (1 / 2, 1 / 2, 1 / 2), element = ''X''\<rparr>])
          (cubic (1 / 4)) 100)) = [] \<and>
   direct (unit_cell ''cubic'' [\<lparr>position = (1 / 2, 1 / 2, 1 / 2), element = ''X''\<rparr>]) =
     [\<lparr>position = (1 / 2, 1 / 2, 1 / 2), element = ''X''\<rparr>]"
  by (simp add: grow_centre_quarter) (simp add: unit_cell_def)

text \<open>
  Claim C2, amended: when \<open>grow_to_supercell\<close> fails with the empty-result error, the
  lattice vectors, the \<open>cartesian\<close> collection and the comment of the Structure are as
  before the call, and its \<open>direct\<close> collection is empty.
\<close>

theorem grow_to_supercell_empty_failure:
  "fst (grow_to_supercell s lattice_vecs max_atoms) = Inl (ValueError ''Grown super-cell is empty'')
   \<Longrightarrow> snd (grow_to_supercell s lattice_vecs max_atoms) = s\<lparr>direct := []\<rparr>"
proof -
  assume f: "fst (grow_to_supercell s lattice_vecs max_atoms) =
               Inl (ValueError ''Grown super-cell is empty'')"
  show ?thesis
  proof (cases "inv3 (strengthen_diagonal lattice_vecs)")
    case (Inl err)
    then have "fst (grow_to_supercell s lattice_vecs max_atoms) = Inl LinAlgError"
      using inv3_error [OF Inl] by (simp add: grow_to_supercell_def)
    with f show ?thesis by simp
  next
    case (Inr ci)
    define e where "e = snd (snd (grow_loop (shifted_atoms (coordinates s) (cartesian s) ci)
       max_atoms (supercell_pos_init, {}, [])))"
    note u = grow_to_supercell_unfold [OF Inr e_def [symmetric]]
    show ?thesis
    proof (cases "length (np_unique e) \<le> 0")
      case True
      then show ?thesis unfolding u by simp
    next
      case False
      with f show ?thesis unfolding u by (simp add: reconcile_D)
    qed
  qed
qed

theorem grow_to_supercell_empty_failure_witness:
  "fst (grow_to_supercell (unit_cell ''cubic'' [\<lparr>position = (1 / 2, 1 / 2, 1 / 2), element = ''X''\<rparr>])
          (cubic (1 / 4)) 100) = Inl (ValueError ''Grown super-cell is empty'') \<and>
   snd (grow_to_supercell (unit_cell ''cubic'' [\<lparr>position = (1 / 2, 1 / 2, 1 / 2), element = ''X''\<rparr>])
          (cubic (1 / 4)) 100) =
     \<lparr>comment = ''cubic'', coordinates = ((1, 0, 0), (0, 1, 0), (0, 0, 1)), direct = [],
      cartesian = [\<lparr>position = (1 / 2, 1 / 2, 1 / 2), element = ''X''\<rparr>]\<rparr>"
proof -
  have h: "fst (grow_to_supercell (unit_cell ''cubic'' [\<lparr>position = (1 / 2, 1 / 2, 1 / 2), element = ''X''\<rparr>])
          (cubic (1 / 4)) 100) = Inl (ValueError ''Grown super-cell is empty'')"
    by (simp add: grow_centre_quarter)
  show ?thesis
    using h grow_to_supercell_empty_failure [OF h] by (simp add: unit_cell_def)
qed

subsection \<open>One atom in the unit cube, grown into the cube of side 2\<close>

text \<open>
  Claim C3, as stated, promises exactly 8 atoms for every one-atom cubic cell of side 1
  grown into the cube of side 2 with \<open>max_atoms = 100\<close>. The inverse is taken of the
  target lattice with \<open>1e-5\<close> added on its diagonal, so a translation by 2 along an axis
  has the fractional coordinate \<open>2 / 2.00001 < 1\<close>: with the atom at the origin, every
  translation in \<open>{0, 1, 2}\<^sup>3\<close> lands in the target cell and the result has 27 atoms.
\<close>

theorem grow_to_supercell_origin_27:
  "length (direct (snd (grow_to_supercell
      (unit_cell ''cubic'' [\<lparr>position = (0, 0, 0), element = ''X''\<rparr>]) (cubic 2) 100))) = 27"
proof -
  have d: "distinct (map (image_atom (0, 0, 0) ''X'') [(0, 0, 0), (1, 0, 0), (0, 1, 0), (0, 0, 1), (1, 1, 0), (0, 1, 1),
   (1, 0, 1), (1, 1, 1), (2, 0, 0), (2, 1, 0), (2, 0, 1), (2, 1, 1),
   (0, 2, 0), (1, 2, 0), (0, 2, 1), (1, 2, 1), (0, 0, 2), (0, 1, 2),
   (1, 0, 2), (1, 1, 2), (2, 2, 0), (2, 2, 1), (0, 2, 2), (1, 2, 2),
   (2, 0, 2), (2, 1, 2), (2, 2, 2)])"
    by (rule distinct_image_atoms) simp
  show ?thesis
    using grown_direct [OF inv3_cubic_2 grow_loop_origin d] by simp
qed

text \<open>
  Claim C3, amended: when the three fractional coordinates of the atom lie in
  \<open>[1e-5, 1)\<close>, growing the one-atom cubic cell of side 1 into the cube of side 2 with
  \<open>max_atoms = 100\<close> returns normally with exactly 8 atoms, one for each translation in
  \<open>{0, 1}\<^sup>3\<close>.
\<close>

theorem grow_to_supercell_unit_cube_2:
  assumes "1 / 100000 \<le> x" "x < 1" "1 / 100000 \<le> y" "y < 1" "1 / 100000 \<le> z" "z < 1"
  shows "fst (grow_to_supercell (unit_cell c [\<lparr>position = (x, y, z), element = e\<rparr>]) (cubic 2) 100)
           = Inr () \<and>
         length (direct (snd (grow_to_supercell
            (unit_cell c [\<lparr>position = (x, y, z), element = e\<rparr>]) (cubic 2) 100))) = 8 \<and>
         mset (direct (snd (grow_to_supercell
            (unit_cell c [\<lparr>position = (x, y, z), element = e\<rparr>]) (cubic 2) 100))) =
         mset (map (image_atom (x, y, z) e)
           [(0, 0, 0), (1, 0, 0), (0, 1, 0), (0, 0, 1), (1, 1, 0), (0, 1, 1), (1, 0, 1), (1, 1, 1)])"
proof -
  have g: "snd (snd (grow_loop (shifted_atoms (coordinates (unit_cell c [\<lparr>position = (x, y, z), element = e\<rparr>]))
        (cartesian (unit_cell c [\<lparr>position = (x, y, z), element = e\<rparr>])) (cubic (100000 / 200001)))
        100 (supercell_pos_init, {}, []))) =
      map (image_atom (x, y, z) e)
           [(0, 0, 0), (1, 0, 0), (0, 1, 0), (0, 0, 1), (1, 1, 0), (0, 1, 1), (1, 0, 1), (1, 1, 1)]"
    by (simp only: grow_loop_interior [OF assms] grow_loop_cube_2)
  have d: "distinct (map (image_atom (x, y, z) e)
           [(0, 0, 0), (1, 0, 0), (0, 1, 0), (0, 0, 1), (1, 1, 0), (0, 1, 1), (1, 0, 1), (1, 1, 1)])"
    by (rule distinct_image_atoms) simp
  show ?thesis
    using grown_direct [OF inv3_cubic_2 g d] by simp
qed

theorem grow_to_supercell_unit_cube_2_witness:
  "(1 / 100000 \<le> (1 / 2 :: real) \<and> (1 / 2 :: real) < 1) \<and>
   fst (grow_to_supercell (unit_cell ''cubic'' [\<lparr>position = (1 / 2, 1 / 2, 1 / 2), element = ''X''\<rparr>])
          (cubic 2) 100) = Inr () \<and>
   length (direct (snd (grow_to_supercell
      (unit_cell ''cubic'' [\<lparr>position = (1 / 2, 1 / 2, 1 / 2), element = ''X''\<rparr>]) (cubic 2) 100))) = 8"
proof -
  have h1: "1 / 100000 \<le> (1 / 2 :: real)" and h2: "(1 / 2 :: real) < 1" by simp_all
  show ?thesis
    using h1 h2 grow_to_supercell_unit_cube_2 [OF h1 h2 h1 h2 h1 h2, of "''cubic''" "''X''"]
    by simp
qed

end
